theory Spec2Isabelle
  imports Complex_Main
begin

section \<open>Python and NumPy values\<close>

text \<open>
  The mechanisms of \<^verbatim>\<open>shfl/differential_privacy/dp_mechanism.py\<close> are embedded over the
  reals: a Python or NumPy float is a \<^typ>\<open>real\<close>, so rounding, overflow and the IEEE values
  inf and nan are outside the model. Where NumPy would produce inf or nan instead of raising
  (an array divided by zero), the model returns the error \<open>NotFinite\<close>.
\<close>

datatype error =
  ValueError | TypeError | ZeroDivisionError | KeyError | IndexError | NotFinite

text \<open>
  The values that reach the mechanisms. \<open>PyFloat\<close> is a scalar object (a member of
  \<^verbatim>\<open>np.ScalarType\<close>), \<open>NdArray shape data\<close> a numeric \<^verbatim>\<open>np.ndarray\<close> with its
  elements in row-major order (shape \<open>[]\<close> is a 0-dimensional array), \<open>PyDict\<close> a
  dictionary whose values are numeric arrays, in insertion order. \<open>PyList\<close> and \<open>PyNone\<close>
  stand for the objects that are none of these. \<open>NdObject v\<close> is the 0-dimensional
  object array that \<^verbatim>\<open>np.asarray\<close> wraps around a non-numeric object \<open>v\<close>.
\<close>

datatype pyval =
    PyFloat real
  | NdArray "nat list" "real list"
  | PyDict "(string \<times> nat list \<times> real list) list"
  | PyList "real list"
  | NdObject pyval
  | PyNone

fun np_asarray :: "pyval \<Rightarrow> pyval" where
  "np_asarray (PyFloat x) = NdArray [] [x]"
| "np_asarray (NdArray sh xs) = NdArray sh xs"
| "np_asarray (PyList xs) = NdArray [length xs] xs"
| "np_asarray (PyDict d) = NdObject (PyDict d)"
| "np_asarray (NdObject v) = NdObject v"
| "np_asarray PyNone = NdObject PyNone"

text \<open>An array holds as many elements as its shape says.\<close>

fun wf_array :: "pyval \<Rightarrow> bool" where
  "wf_array (NdArray sh xs) = (length xs = prod_list sh)"
| "wf_array _ = False"

section \<open>The random generator\<close>

text \<open>
  The process-wide generator of NumPy is explicit state: the sequences of standard variates
  it will deliver (uniform on [0,1), standard Laplace, standard normal) and the number of
  variates consumed so far. Every sampler call takes the next unused positions, one for
  each element it returns, so two elements never share a variate.
\<close>

record rng =
  random_sample :: "nat \<Rightarrow> real"
  standard_laplace :: "nat \<Rightarrow> real"
  standard_normal :: "nat \<Rightarrow> real"
  consumed :: nat

definition draws :: "(nat \<Rightarrow> real) \<Rightarrow> rng \<Rightarrow> nat \<Rightarrow> real list" where
  "draws f g n = map f [consumed g ..< consumed g + n]"

definition advance :: "rng \<Rightarrow> nat \<Rightarrow> rng" where
  "advance g n = g\<lparr>consumed := consumed g + n\<rparr>"

text \<open>
  \<^verbatim>\<open>scipy.stats.bernoulli.rvs(p=p, size=shape)\<close> with a scalar \<open>p\<close>: a domain error
  unless \<open>0 \<le> p \<le> 1\<close>, else one draw for each element, 1 where the uniform variate is
  below \<open>p\<close>.
\<close>

definition bernoulli :: "real \<Rightarrow> real \<Rightarrow> real" where
  "bernoulli p u = (if u < p then 1 else 0)"

definition bernoulli_rvs_size :: "real \<Rightarrow> nat list \<Rightarrow> rng \<Rightarrow> (error + real list) \<times> rng" where
  "bernoulli_rvs_size p sh g =
     (if 0 \<le> p \<and> p \<le> 1
      then (Inr (map (bernoulli p) (draws (random_sample g) g (prod_list sh))),
            advance g (prod_list sh))
      else (Inl ValueError, g))"

text \<open>\<^verbatim>\<open>scipy.stats.bernoulli.rvs(p=probabilities)\<close> with an array of probabilities.\<close>

definition bernoulli_rvs :: "real list \<Rightarrow> rng \<Rightarrow> (error + real list) \<times> rng" where
  "bernoulli_rvs ps g =
     (if list_all (\<lambda>p. 0 \<le> p \<and> p \<le> 1) ps
      then (Inr (map2 bernoulli ps (draws (random_sample g) g (length ps))),
            advance g (length ps))
      else (Inl ValueError, g))"

section \<open>Validation helpers\<close>

text \<open>
  Modelled from the spec: the helper \<^verbatim>\<open>_check_binary_data\<close> of the base class
  \<^verbatim>\<open>DPDataAccessDefinition\<close> (module \<^verbatim>\<open>shfl.private.data\<close>) is not among the sources.
  The spec: "binary-data check (every entry in {0,1}, else fails)".
\<close>

fun check_binary_data :: "pyval \<Rightarrow> error + unit" where
  "check_binary_data (NdArray sh xs) =
     (if list_all (\<lambda>x. x = 0 \<or> x = 1) xs then Inr () else Inl ValueError)"
| "check_binary_data _ = Inl ValueError"

text \<open>
  Modelled from the spec: the helper \<^verbatim>\<open>_check_epsilon_delta\<close> of the base class is not
  among the sources. The spec: "epsilon/delta well-formedness (epsilon>0; delta in [0,1))".
\<close>

definition check_epsilon_delta :: "real \<times> real \<Rightarrow> error + unit" where
  "check_epsilon_delta ed =
     (if 0 < fst ed \<and> 0 \<le> snd ed \<and> snd ed < 1 then Inr () else Inl ValueError)"

section \<open>RandomizedResponseCoins\<close>

record RandomizedResponseCoins =
  prob_head_first :: real
  prob_head_second :: real
  rrc_epsilon_delta :: "real \<times> real"

definition RandomizedResponseCoins_init :: "real \<Rightarrow> real \<Rightarrow> RandomizedResponseCoins" where
  "RandomizedResponseCoins_init p1 p2 =
     \<lparr>prob_head_first = p1, prob_head_second = p2, rrc_epsilon_delta = (ln 3, 0)\<rparr>"

definition RandomizedResponseCoins_epsilon_delta :: "RandomizedResponseCoins \<Rightarrow> real \<times> real" where
  "RandomizedResponseCoins_epsilon_delta self = rrc_epsilon_delta self"

definition RandomizedResponseCoins_apply ::
  "RandomizedResponseCoins \<Rightarrow> pyval \<Rightarrow> rng \<Rightarrow> (error + pyval) \<times> rng" where
  "RandomizedResponseCoins_apply self data0 g =
     (let data = np_asarray data0 in
      case check_binary_data data of
        Inl e \<Rightarrow> (Inl e, g)
      | Inr _ \<Rightarrow>
         (case data of
            NdArray sh xs \<Rightarrow>
              (case bernoulli_rvs_size (1 - prob_head_first self) sh g of
                 (Inl e, g1) \<Rightarrow> (Inl e, g1)
               | (Inr first_coin_flip, g1) \<Rightarrow>
                  (case bernoulli_rvs_size (prob_head_second self) sh g1 of
                     (Inl e, g2) \<Rightarrow> (Inl e, g2)
                   | (Inr second_coin_flip, g2) \<Rightarrow>
                       (Inr (NdArray sh
                          (map2 (\<lambda>d (f, s). d * f + (1 - f) * s) xs
                             (zip first_coin_flip second_coin_flip))), g2)))
          | _ \<Rightarrow> (Inl TypeError, g)))"

section \<open>RandomizedResponseBinary\<close>

record RandomizedResponseBinary =
  f0 :: real
  f1 :: real
  rrb_epsilon :: real

text \<open>
  \<^verbatim>\<open>math.log\<close> raises on an argument that is not positive; after the two range checks
  both quotients are positive, so that branch is never taken (lemma \<open>log_argument_positive\<close>).
\<close>

definition RandomizedResponseBinary_init ::
  "real \<Rightarrow> real \<Rightarrow> real \<Rightarrow> error + RandomizedResponseBinary" where
  "RandomizedResponseBinary_init f0' f1' epsilon =
     (case check_epsilon_delta (epsilon, 0) of
        Inl e \<Rightarrow> Inl e
      | Inr _ \<Rightarrow>
          if f0' \<le> 0 \<or> f0' \<ge> 1 then Inl ValueError
          else if f1' \<le> 0 \<or> f1' \<ge> 1 then Inl ValueError
          else if max (f0' / (1 - f1')) (f1' / (1 - f0')) \<le> 0 then Inl ValueError
          else if epsilon < ln (max (f0' / (1 - f1')) (f1' / (1 - f0'))) then Inl ValueError
          else Inr \<lparr>f0 = f0', f1 = f1', rrb_epsilon = epsilon\<rparr>)"

definition RandomizedResponseBinary_epsilon_delta :: "RandomizedResponseBinary \<Rightarrow> real \<times> real" where
  "RandomizedResponseBinary_epsilon_delta self = (rrb_epsilon self, 0)"

definition RandomizedResponseBinary_apply ::
  "RandomizedResponseBinary \<Rightarrow> pyval \<Rightarrow> rng \<Rightarrow> (error + pyval) \<times> rng" where
  "RandomizedResponseBinary_apply self data0 g =
     (let data = np_asarray data0 in
      case check_binary_data data of
        Inl e \<Rightarrow> (Inl e, g)
      | Inr _ \<Rightarrow>
         (case data of
            NdArray sh xs \<Rightarrow>
              (let probabilities = map (\<lambda>x. if x = 0 then 1 - f0 self else f1 self) xs in
               case bernoulli_rvs probabilities g of
                 (Inl e, g1) \<Rightarrow> (Inl e, g1)
               | (Inr x_response, g1) \<Rightarrow> (Inr (NdArray sh x_response), g1))
          | _ \<Rightarrow> (Inl TypeError, g)))"

section \<open>NumPy arithmetic and samplers\<close>

text \<open>
  Broadcasting an array of shape \<open>src\<close> to the shape \<open>dst\<close>: the source shape is
  aligned to the right, padded with 1 on the left, and an axis of length 1 is repeated.
  \<open>None\<close> when the shapes are not compatible (NumPy raises ValueError).
\<close>

definition broadcastable :: "nat list \<Rightarrow> nat list \<Rightarrow> bool" where
  "broadcastable src dst =
     (length src \<le> length dst \<and>
      list_all2 (\<lambda>m n. m = n \<or> m = 1) src (drop (length dst - length src) dst))"

fun broadcast_aligned :: "nat list \<Rightarrow> nat list \<Rightarrow> real list \<Rightarrow> real list" where
  "broadcast_aligned (m # ms) (n # ns) xs =
     (if m = n
      then concat (map (\<lambda>i. broadcast_aligned ms ns
                          (take (prod_list ms) (drop (i * prod_list ms) xs))) [0..<n])
      else concat (replicate n (broadcast_aligned ms ns xs)))"
| "broadcast_aligned _ _ xs = xs"

definition np_broadcast_to :: "nat list \<Rightarrow> real list \<Rightarrow> nat list \<Rightarrow> real list option" where
  "np_broadcast_to src xs dst =
     (if broadcastable src dst
      then Some (broadcast_aligned (replicate (length dst - length src) 1 @ src) dst xs)
      else None)"

text \<open>
  \<open>x / e\<close> for a scalar divisor \<open>e\<close>. A Python float divided by zero raises
  ZeroDivisionError; an array divided by zero holds inf or nan. Other objects do not
  support the operator.
\<close>

fun truediv :: "pyval \<Rightarrow> real \<Rightarrow> error + pyval" where
  "truediv (PyFloat x) e = (if e = 0 then Inl ZeroDivisionError else Inr (PyFloat (x / e)))"
| "truediv (NdArray sh xs) e =
     (if e = 0 then Inl NotFinite else Inr (NdArray sh (map (\<lambda>x. x / e) xs)))"
| "truediv _ e = Inl TypeError"

text \<open>\<open>c * x\<close> for a scalar factor \<open>c\<close>.\<close>

fun scalar_mul :: "real \<Rightarrow> pyval \<Rightarrow> error + pyval" where
  "scalar_mul c (PyFloat x) = Inr (PyFloat (c * x))"
| "scalar_mul c (NdArray sh xs) = Inr (NdArray sh (map (\<lambda>x. c * x) xs))"
| "scalar_mul c _ = Inl TypeError"

text \<open>
  A location-scale sampler (\<^verbatim>\<open>np.random.laplace\<close>, \<^verbatim>\<open>np.random.normal\<close>) called with
  \<^verbatim>\<open>loc\<close>, \<^verbatim>\<open>scale\<close> and \<^verbatim>\<open>size\<close>: the scale is broadcast to \<open>size\<close>, a negative
  scale is a ValueError, and element \<open>i\<close> of the result is \<open>loc + scale\<^sub>i * z\<^sub>i\<close> for the next
  unused standard variates \<open>z\<close> of the family.
\<close>

definition loc_scale_sample ::
  "(nat \<Rightarrow> real) \<Rightarrow> real \<Rightarrow> nat list \<Rightarrow> real list \<Rightarrow> nat list \<Rightarrow> rng \<Rightarrow> (error + real list) \<times> rng" where
  "loc_scale_sample z loc ssh ss sz g =
     (case np_broadcast_to ssh ss sz of
        None \<Rightarrow> (Inl ValueError, g)
      | Some bs \<Rightarrow>
          if list_ex (\<lambda>b. b < 0) ss then (Inl ValueError, g)
          else (Inr (map2 (\<lambda>b v. loc + b * v) bs (draws z g (prod_list sz))),
                advance g (prod_list sz)))"

fun np_random_laplace :: "real \<Rightarrow> pyval \<Rightarrow> nat list \<Rightarrow> rng \<Rightarrow> (error + real list) \<times> rng" where
  "np_random_laplace loc (PyFloat b) sz g = loc_scale_sample (standard_laplace g) loc [] [b] sz g"
| "np_random_laplace loc (NdArray sh bs) sz g = loc_scale_sample (standard_laplace g) loc sh bs sz g"
| "np_random_laplace loc _ sz g = (Inl TypeError, g)"

fun np_random_normal :: "real \<Rightarrow> pyval \<Rightarrow> nat list \<Rightarrow> rng \<Rightarrow> (error + real list) \<times> rng" where
  "np_random_normal loc (PyFloat b) sz g = loc_scale_sample (standard_normal g) loc [] [b] sz g"
| "np_random_normal loc (NdArray sh bs) sz g = loc_scale_sample (standard_normal g) loc sh bs sz g"
| "np_random_normal loc _ sz g = (Inl TypeError, g)"




section \<open>More validation helpers\<close>

text \<open>
  Modelled from the spec: the helper \<^verbatim>\<open>_check_sensitivity_positive\<close> of the base class is
  not among the sources. The spec: "sensitivity positivity (every entry >0)", for "a
  positive scalar or a structured (per-key) collection of positive scalars".
\<close>

fun check_sensitivity_positive :: "pyval \<Rightarrow> error + unit" where
  "check_sensitivity_positive (PyFloat x) = (if 0 < x then Inr () else Inl ValueError)"
| "check_sensitivity_positive (NdArray sh xs) =
     (if list_all (\<lambda>x. 0 < x) xs then Inr () else Inl ValueError)"
| "check_sensitivity_positive (PyList xs) =
     (if list_all (\<lambda>x. 0 < x) xs then Inr () else Inl ValueError)"
| "check_sensitivity_positive (PyDict d) =
     (if list_all (\<lambda>(k, sh, xs). list_all (\<lambda>x. 0 < x) xs) d then Inr () else Inl ValueError)"
| "check_sensitivity_positive _ = Inl ValueError"

text \<open>
  Modelled from the spec: the helper \<^verbatim>\<open>_check_sensitivity_shape\<close> of the base class is
  not among the sources. The spec: "sensitivity/query-result shape compatibility (matching
  array shapes, or matching key sets for mappings)"; a scalar sensitivity goes with a scalar,
  an array or a mapping result ("mapping result with scalar sensitivity: same scale b
  applied to every key's array").
\<close>

fun check_sensitivity_shape :: "pyval \<Rightarrow> pyval \<Rightarrow> error + unit" where
  "check_sensitivity_shape (PyFloat s) (PyFloat q) = Inr ()"
| "check_sensitivity_shape (PyFloat s) (NdArray qsh qs) = Inr ()"
| "check_sensitivity_shape (PyFloat s) (PyDict qd) = Inr ()"
| "check_sensitivity_shape (NdArray ssh ss) (PyFloat q) =
     (if ssh = [] then Inr () else Inl ValueError)"
| "check_sensitivity_shape (NdArray ssh ss) (NdArray qsh qs) =
     (if ssh = [] \<or> ssh = qsh then Inr () else Inl ValueError)"
| "check_sensitivity_shape (NdArray ssh ss) (PyDict qd) =
     (if ssh = [] then Inr () else Inl ValueError)"
| "check_sensitivity_shape (PyDict sd) (PyDict qd) =
     (if set (map fst sd) = set (map fst qd) then Inr () else Inl ValueError)"
| "check_sensitivity_shape _ _ = Inl ValueError"

text \<open>
  Modelled from the spec: \<^verbatim>\<open>IdentityFunction\<close> of module \<^verbatim>\<open>shfl.private.query\<close> is not
  among the sources. The spec: "default is the identity (returns data unchanged)".
\<close>

definition IdentityFunction_get :: "pyval \<Rightarrow> pyval" where
  "IdentityFunction_get data = data"

section \<open>LaplaceMechanism\<close>

record LaplaceMechanism =
  lap_sensitivity :: pyval
  lap_epsilon :: real
  lap_query :: "pyval \<Rightarrow> pyval"

definition LaplaceMechanism_init ::
  "pyval \<Rightarrow> real \<Rightarrow> (pyval \<Rightarrow> pyval) option \<Rightarrow> error + LaplaceMechanism" where
  "LaplaceMechanism_init sensitivity epsilon query =
     (let query' = (case query of None \<Rightarrow> IdentityFunction_get | Some q \<Rightarrow> q) in
      case check_epsilon_delta (epsilon, 0) of
        Inl e \<Rightarrow> Inl e
      | Inr _ \<Rightarrow>
         (case check_sensitivity_positive sensitivity of
            Inl e \<Rightarrow> Inl e
          | Inr _ \<Rightarrow>
              Inr \<lparr>lap_sensitivity = sensitivity, lap_epsilon = epsilon, lap_query = query'\<rparr>))"

definition LaplaceMechanism_epsilon_delta :: "LaplaceMechanism \<Rightarrow> real \<times> real" where
  "LaplaceMechanism_epsilon_delta self = (lap_epsilon self, 0)"

text \<open>\<^verbatim>\<open>isinstance(query_result, (np.ScalarType, np.ndarray))\<close> and \<^verbatim>\<open>isinstance(_, dict)\<close>.\<close>

fun isinstance_scalar_or_ndarray :: "pyval \<Rightarrow> bool" where
  "isinstance_scalar_or_ndarray (PyFloat x) = True"
| "isinstance_scalar_or_ndarray (NdArray sh xs) = True"
| "isinstance_scalar_or_ndarray (NdObject v) = True"
| "isinstance_scalar_or_ndarray _ = False"

fun isinstance_dict :: "pyval \<Rightarrow> bool" where
  "isinstance_dict (PyDict d) = True"
| "isinstance_dict _ = False"

text \<open>
  The dictionary comprehension over \<^verbatim>\<open>query_result.items()\<close>: for each key in turn the
  scale is looked up, noise of the value's shape is drawn and added to the value.
\<close>

fun laplace_items ::
  "(string \<Rightarrow> error + pyval) \<Rightarrow> (string \<times> nat list \<times> real list) list \<Rightarrow> rng \<Rightarrow>
     (error + (string \<times> nat list \<times> real list) list) \<times> rng" where
  "laplace_items scale [] g = (Inr [], g)"
| "laplace_items scale ((k, sh, xs) # kvs) g =
     (case scale k of
        Inl e \<Rightarrow> (Inl e, g)
      | Inr b \<Rightarrow>
         (case np_random_laplace 0 b sh g of
            (Inl e, g1) \<Rightarrow> (Inl e, g1)
          | (Inr noise, g1) \<Rightarrow>
             (case laplace_items scale kvs g1 of
                (Inl e, g2) \<Rightarrow> (Inl e, g2)
              | (Inr out, g2) \<Rightarrow> (Inr ((k, sh, map2 (+) xs noise) # out), g2))))"

text \<open>\<^verbatim>\<open>{k: v / epsilon for k, v in sensitivity.items()}\<close>, and the lookup \<^verbatim>\<open>b[k]\<close>.\<close>

definition scale_items ::
  "(string \<times> nat list \<times> real list) list \<Rightarrow> real \<Rightarrow>
     error + (string \<times> nat list \<times> real list) list" where
  "scale_items sd e =
     (if sd \<noteq> [] \<and> e = 0 then Inl NotFinite
      else Inr (map (\<lambda>(k, sh, xs). (k, sh, map (\<lambda>x. x / e) xs)) sd))"

definition getitem :: "(string \<times> nat list \<times> real list) list \<Rightarrow> string \<Rightarrow> error + pyval" where
  "getitem b k = (case map_of b k of None \<Rightarrow> Inl KeyError | Some (sh, xs) \<Rightarrow> Inr (NdArray sh xs))"

text \<open>
  \<^verbatim>\<open>apply\<close> returns the result or the error, the instance after the call (the first
  branch assigns to \<^verbatim>\<open>self._sensitivity\<close>) and the generator after the call.
\<close>

definition LaplaceMechanism_apply ::
  "LaplaceMechanism \<Rightarrow> pyval \<Rightarrow> rng \<Rightarrow> (error + pyval) \<times> LaplaceMechanism \<times> rng" where
  "LaplaceMechanism_apply self data g =
     (let query_result = lap_query self data in
      if isinstance_scalar_or_ndarray query_result then
        (let self1 = self\<lparr>lap_sensitivity := np_asarray (lap_sensitivity self)\<rparr> in
         case check_sensitivity_shape (lap_sensitivity self1) query_result of
           Inl e \<Rightarrow> (Inl e, self1, g)
         | Inr _ \<Rightarrow>
            (case truediv (lap_sensitivity self1) (lap_epsilon self1) of
               Inl e \<Rightarrow> (Inl e, self1, g)
             | Inr b \<Rightarrow>
                (case np_asarray (lap_query self1 data) of
                   NdArray sh xs \<Rightarrow>
                     (case np_random_laplace 0 b sh g of
                        (Inl e, g1) \<Rightarrow> (Inl e, self1, g1)
                      | (Inr noise, g1) \<Rightarrow> (Inr (NdArray sh (map2 (+) xs noise)), self1, g1))
                 | _ \<Rightarrow>
                     (case np_random_laplace 0 b [] g of
                        (Inl e, g1) \<Rightarrow> (Inl e, self1, g1)
                      | (Inr noise, g1) \<Rightarrow> (Inl TypeError, self1, g1)))))
      else if isinstance_dict query_result then
        (case check_sensitivity_shape (lap_sensitivity self) query_result of
           Inl e \<Rightarrow> (Inl e, self, g)
         | Inr _ \<Rightarrow>
            (case query_result of
               PyDict qd \<Rightarrow>
                 (case lap_sensitivity self of
                    PyDict sd \<Rightarrow>
                      (case scale_items sd (lap_epsilon self) of
                         Inl e \<Rightarrow> (Inl e, self, g)
                       | Inr b \<Rightarrow>
                          (case laplace_items (getitem b) qd g of
                             (Inl e, g1) \<Rightarrow> (Inl e, self, g1)
                           | (Inr out, g1) \<Rightarrow> (Inr (PyDict out), self, g1)))
                  | s \<Rightarrow>
                      (case truediv s (lap_epsilon self) of
                         Inl e \<Rightarrow> (Inl e, self, g)
                       | Inr b \<Rightarrow>
                          (case laplace_items (\<lambda>k. Inr b) qd g of
                             (Inl e, g1) \<Rightarrow> (Inl e, self, g1)
                           | (Inr out, g1) \<Rightarrow> (Inr (PyDict out), self, g1))))
             | _ \<Rightarrow> (Inl TypeError, self, g)))
      else (Inr PyNone, self, g))"

section \<open>GaussianMechanism\<close>

record GaussianMechanism =
  gau_sensitivity :: pyval
  gau_epsilon_delta :: "real \<times> real"
  gau_query :: "pyval \<Rightarrow> pyval"

definition GaussianMechanism_init ::
  "pyval \<Rightarrow> real \<times> real \<Rightarrow> (pyval \<Rightarrow> pyval) option \<Rightarrow> error + GaussianMechanism" where
  "GaussianMechanism_init sensitivity epsilon_delta query =
     (let query' = (case query of None \<Rightarrow> IdentityFunction_get | Some q \<Rightarrow> q) in
      case check_epsilon_delta epsilon_delta of
        Inl e \<Rightarrow> Inl e
      | Inr _ \<Rightarrow>
          if fst epsilon_delta \<ge> 1 then Inl ValueError
          else (case check_sensitivity_positive sensitivity of
                  Inl e \<Rightarrow> Inl e
                | Inr _ \<Rightarrow>
                    Inr \<lparr>gau_sensitivity = sensitivity, gau_epsilon_delta = epsilon_delta,
                         gau_query = query'\<rparr>))"

definition GaussianMechanism_epsilon_delta :: "GaussianMechanism \<Rightarrow> real \<times> real" where
  "GaussianMechanism_epsilon_delta self = gau_epsilon_delta self"

text \<open>
  \<^verbatim>\<open>sqrt(2 * np.log(1.25 / delta))\<close>: the Python division raises on \<open>delta = 0\<close>,
  \<^verbatim>\<open>np.log\<close> of a negative number is nan, and \<^verbatim>\<open>math.sqrt\<close> raises ValueError on a
  negative argument.
\<close>

definition gaussian_factor :: "real \<Rightarrow> error + real" where
  "gaussian_factor delta =
     (if delta = 0 then Inl ZeroDivisionError
      else if 1.25 / delta < 0 then Inl NotFinite
      else if 2 * ln (1.25 / delta) < 0 then Inl ValueError
      else Inr (sqrt (2 * ln (1.25 / delta))))"

definition GaussianMechanism_apply ::
  "GaussianMechanism \<Rightarrow> pyval \<Rightarrow> rng \<Rightarrow> (error + pyval) \<times> rng" where
  "GaussianMechanism_apply self data g =
     (let query_result = np_asarray (gau_query self data);
          sensitivity = np_asarray (gau_sensitivity self) in
      case check_sensitivity_shape sensitivity query_result of
        Inl e \<Rightarrow> (Inl e, g)
      | Inr _ \<Rightarrow>
         (case gaussian_factor (snd (gau_epsilon_delta self)) of
            Inl e \<Rightarrow> (Inl e, g)
          | Inr c \<Rightarrow>
             (case scalar_mul c sensitivity of
                Inl e \<Rightarrow> (Inl e, g)
              | Inr t \<Rightarrow>
                 (case truediv t (fst (gau_epsilon_delta self)) of
                    Inl e \<Rightarrow> (Inl e, g)
                  | Inr std \<Rightarrow>
                     (case query_result of
                        NdArray sh xs \<Rightarrow>
                          (case np_random_normal 0 std sh g of
                             (Inl e, g1) \<Rightarrow> (Inl e, g1)
                           | (Inr noise, g1) \<Rightarrow> (Inr (NdArray sh (map2 (+) xs noise)), g1))
                      | _ \<Rightarrow> (Inl TypeError, g))))))"

section \<open>ExponentialMechanism\<close>

text \<open>
  The utility \<open>u\<close> is vectorised: for a database it returns one value for each candidate
  of the response space \<open>r\<close>. \<open>size\<close> defaults to 1 in the source.
\<close>

record 'a ExponentialMechanism =
  em_u :: "pyval \<Rightarrow> 'a list \<Rightarrow> real list"
  em_r :: "'a list"
  em_delta_u :: real
  em_epsilon :: real
  em_size :: int


definition ExponentialMechanism_epsilon_delta :: "'a ExponentialMechanism \<Rightarrow> real \<times> real" where
  "ExponentialMechanism_epsilon_delta self = (em_epsilon self, 0)"


section \<open>What the spec says of a mapping result\<close>

text \<open>
  The spec's reading of the mapping branch of the Laplace mechanism, to compare with
  \<open>laplace_items\<close>: the value of each key plus noise of that key's scale \<open>b k\<close>, every
  element with a standard variate of its own, taken in the order of the items.
\<close>

fun noise_per_key ::
  "(string \<Rightarrow> real) \<Rightarrow> (nat \<Rightarrow> real) \<Rightarrow> nat \<Rightarrow> (string \<times> nat list \<times> real list) list \<Rightarrow>
     (string \<times> nat list \<times> real list) list" where
  "noise_per_key b z c [] = []"
| "noise_per_key b z c ((k, sh, xs) # kvs) =
     (k, sh, map (\<lambda>i. xs ! i + b k * z (c + i)) [0..<length xs]) #
       noise_per_key b z (c + length xs) kvs"

fun items_size :: "(string \<times> nat list \<times> real list) list \<Rightarrow> nat" where
  "items_size [] = 0"
| "items_size ((k, sh, xs) # kvs) = length xs + items_size kvs"

text \<open>The sensitivity of a key in a per-key sensitivity of scalars.\<close>

definition sensitivity_of :: "(string \<times> nat list \<times> real list) list \<Rightarrow> string \<Rightarrow> real" where
  "sensitivity_of sd k = (case map_of sd k of Some (sh, [x]) \<Rightarrow> x | _ \<Rightarrow> 0)"

text \<open>Every value of a mapping is a well-formed array; every value is a scalar.\<close>

definition wf_items :: "(string \<times> nat list \<times> real list) list \<Rightarrow> bool" where
  "wf_items d = list_all (\<lambda>(k, sh, xs). length xs = prod_list sh) d"

definition scalar_items :: "(string \<times> nat list \<times> real list) list \<Rightarrow> bool" where
  "scalar_items d = list_all (\<lambda>(k, sh, xs). sh = [] \<and> length xs = 1) d"

section \<open>What the spec says of the exponential mechanism\<close>


section \<open>Concrete instances\<close>

definition coins_fair :: RandomizedResponseCoins where
  "coins_fair = RandomizedResponseCoins_init (1 / 2) (1 / 2)"

definition laplace_unit :: LaplaceMechanism where
  "laplace_unit = \<lparr>lap_sensitivity = PyFloat 1, lap_epsilon = 1, lap_query = IdentityFunction_get\<rparr>"

definition laplace_keyed :: LaplaceMechanism where
  "laplace_keyed =
     \<lparr>lap_sensitivity = PyDict [(''a'', [], [1]), (''b'', [], [2])], lap_epsilon = 1 / 2,
      lap_query = IdentityFunction_get\<rparr>"

definition laplace_scalar :: LaplaceMechanism where
  "laplace_scalar =
     \<lparr>lap_sensitivity = PyFloat 2, lap_epsilon = 1 / 2, lap_query = IdentityFunction_get\<rparr>"

definition laplace_array :: LaplaceMechanism where
  "laplace_array =
     \<lparr>lap_sensitivity = NdArray [2] [1, 2], lap_epsilon = 1 / 2, lap_query = IdentityFunction_get\<rparr>"

definition mapping_data :: pyval where
  "mapping_data = PyDict [(''a'', [1], [10]), (''b'', [2], [20, 30])]"

definition gaussian_half :: GaussianMechanism where
  "gaussian_half =
     \<lparr>gau_sensitivity = PyFloat 1, gau_epsilon_delta = (1 / 2, 5 / 4 * exp (- 2)),
      gau_query = IdentityFunction_get\<rparr>"

definition gaussian_array :: GaussianMechanism where
  "gaussian_array =
     \<lparr>gau_sensitivity = NdArray [2] [1, 2], gau_epsilon_delta = (1 / 2, 5 / 4 * exp (- 2)),
      gau_query = IdentityFunction_get\<rparr>"

definition gaussian_zero_delta :: GaussianMechanism where
  "gaussian_zero_delta =
     \<lparr>gau_sensitivity = PyFloat 1, gau_epsilon_delta = (1 / 2, 0),
      gau_query = IdentityFunction_get\<rparr>"





section \<open>A concrete generator\<close>

text \<open>A generator state to run the mechanisms on.\<close>

definition rng0 :: rng where
  "rng0 = \<lparr>random_sample = (\<lambda>k. if even k then 3 / 4 else 1 / 4),
           standard_laplace = (\<lambda>k. real k - 1),
           standard_normal = (\<lambda>k. 1 - real k / 2),
           consumed = 0\<rparr>"

section \<open>Properties\<close>

subsection \<open>Auxiliary facts\<close>

lemma log_argument_positive:
  assumes "0 < a" "a < 1" "0 < b" "b < 1"
  shows "0 < max (a / (1 - b)) (b / (1 - a :: real))"
proof -
  have "0 < a / (1 - b)" using assms by simp
  then show ?thesis by (simp add: max_def)
qed

lemma draws_nth: "i < n \<Longrightarrow> draws f g n ! i = f (consumed g + i)"
  by (simp add: draws_def)

lemma length_draws: "length (draws f g n) = n"
  by (simp add: draws_def)

lemma concat_replicate_replicate:
  "concat (replicate n (replicate m x)) = replicate (n * m) x"
  by (induction n) (simp_all add: replicate_add)

lemma broadcast_aligned_scalar:
  "broadcast_aligned (replicate (length dst) (Suc 0)) dst [x] = replicate (prod_list dst) x"
proof (induction dst)
  case Nil
  then show ?case by simp
next
  case (Cons n ns)
  show ?case
  proof (cases "n = 1")
    case True
    then show ?thesis using Cons by simp
  next
    case False
    then show ?thesis using Cons by (simp add: concat_replicate_replicate)
  qed
qed

lemma np_broadcast_to_scalar:
  "np_broadcast_to [] [x] dst = Some (replicate (prod_list dst) x)"
  by (simp add: np_broadcast_to_def broadcastable_def broadcast_aligned_scalar)

lemma concat_chunks:
  "length xs = n * m \<Longrightarrow> concat (map (\<lambda>i. take m (drop (i * m) xs)) [0..<n]) = xs"
proof (induction n arbitrary: xs)
  case 0
  then show ?case by simp
next
  case (Suc n)
  have "concat (map (\<lambda>i. take m (drop (i * m) xs)) [0..<Suc n]) =
        concat (map (\<lambda>i. take m (drop (i * m) (take (n * m) xs))) [0..<n]) @ take m (drop (n * m) xs)"
  proof -
    have "\<And>i. i < n \<Longrightarrow> take m (drop (i * m) (take (n * m) xs)) = take m (drop (i * m) xs)"
    proof -
      fix i assume "i < n"
      then have "Suc i \<le> n" by simp
      then have "Suc i * m \<le> n * m" by (rule mult_le_mono1)
      then have "m \<le> n * m - i * m" by simp
      then show "take m (drop (i * m) (take (n * m) xs)) = take m (drop (i * m) xs)"
        by (simp add: drop_take min_def)
    qed
    then have eq: "map (\<lambda>i. take m (drop (i * m) (take (n * m) xs))) [0..<n] =
       map (\<lambda>i. take m (drop (i * m) xs)) [0..<n]"
      by simp
    show ?thesis by (simp add: eq)
  qed
  also have "\<dots> = take (n * m) xs @ take m (drop (n * m) xs)"
    using Suc.IH [of "take (n * m) xs"] Suc.prems by simp
  also have "\<dots> = xs"
    using Suc.prems by (metis append_take_drop_id mult_Suc add.commute length_drop diff_add_inverse2 take_all order_refl)
  finally show ?case .
qed

lemma broadcast_aligned_same:
  "length xs = prod_list sh \<Longrightarrow> broadcast_aligned sh sh xs = xs"
proof (induction sh arbitrary: xs)
  case Nil
  then show ?case by simp
next
  case (Cons n ns)
  have "\<And>i. i < n \<Longrightarrow> broadcast_aligned ns ns (take (prod_list ns) (drop (i * prod_list ns) xs))
      = take (prod_list ns) (drop (i * prod_list ns) xs)"
  proof -
    fix i assume "i < n"
    then have "Suc i \<le> n" by simp
    then have "Suc i * prod_list ns \<le> n * prod_list ns" by (rule mult_le_mono1)
    then have "prod_list ns \<le> length xs - i * prod_list ns" using Cons.prems by simp
    then have "length (take (prod_list ns) (drop (i * prod_list ns) xs)) = prod_list ns"
      by simp
    then show "broadcast_aligned ns ns (take (prod_list ns) (drop (i * prod_list ns) xs))
      = take (prod_list ns) (drop (i * prod_list ns) xs)"
      by (rule Cons.IH)
  qed
  then have eq: "map (\<lambda>i. broadcast_aligned ns ns (take (prod_list ns) (drop (i * prod_list ns) xs))) [0..<n]
     = map (\<lambda>i. take (prod_list ns) (drop (i * prod_list ns) xs)) [0..<n]"
    by simp
  show ?case using Cons.prems by (simp add: eq concat_chunks)
qed

lemma broadcastable_refl: "broadcastable sh sh"
  by (simp add: broadcastable_def list_all2_same)

lemma np_broadcast_to_same:
  "length xs = prod_list sh \<Longrightarrow> np_broadcast_to sh xs sh = Some xs"
  by (simp add: np_broadcast_to_def broadcastable_refl broadcast_aligned_same)

lemma loc_scale_sample_scalar:
  assumes "0 \<le> b"
  shows "loc_scale_sample z loc [] [b] sz g =
    (Inr (map (\<lambda>i. loc + b * z (consumed g + i)) [0..<prod_list sz]), advance g (prod_list sz))"
proof -
  have "map2 (\<lambda>b v. loc + b * v) (replicate (prod_list sz) b) (draws z g (prod_list sz)) =
      map (\<lambda>i. loc + b * z (consumed g + i)) [0..<prod_list sz]"
    by (rule nth_equalityI) (simp_all add: length_draws draws_nth)
  then show ?thesis
    using assms by (simp add: loc_scale_sample_def np_broadcast_to_scalar)
qed

lemma loc_scale_sample_same:
  assumes "length bs = prod_list sz" "list_all (\<lambda>b. 0 \<le> b) bs"
  shows "loc_scale_sample z loc sz bs sz g =
    (Inr (map (\<lambda>i. loc + bs ! i * z (consumed g + i)) [0..<prod_list sz]), advance g (prod_list sz))"
proof -
  have "map2 (\<lambda>b v. loc + b * v) bs (draws z g (prod_list sz)) =
      map (\<lambda>i. loc + bs ! i * z (consumed g + i)) [0..<prod_list sz]"
    using assms(1) by (intro nth_equalityI) (simp_all add: length_draws draws_nth)
  moreover have "\<not> list_ex (\<lambda>b. b < 0) bs"
    using assms(2) by (auto simp: list_ex_iff list_all_iff)
  ultimately show ?thesis
    using assms(1) by (simp add: loc_scale_sample_def np_broadcast_to_same)
qed

lemma binary_init_cases:
  "RandomizedResponseBinary_init a b e =
     (if 0 < e \<and> 0 < a \<and> a < 1 \<and> 0 < b \<and> b < 1 \<and> ln (max (a / (1 - b)) (b / (1 - a))) \<le> e
      then Inr \<lparr>f0 = a, f1 = b, rrb_epsilon = e\<rparr> else Inl ValueError)"
proof (cases "0 < a \<and> a < 1 \<and> 0 < b \<and> b < 1")
  case True
  then have "0 < max (a / (1 - b)) (b / (1 - a))"
    using log_argument_positive by blast
  with True show ?thesis
    by (auto simp: RandomizedResponseBinary_init_def check_epsilon_delta_def)
next
  case False
  then show ?thesis
    by (auto simp: RandomizedResponseBinary_init_def check_epsilon_delta_def)
qed

lemma gaussian_init_cases:
  "GaussianMechanism_init s (e, d) q =
     (if 0 < e \<and> e < 1 \<and> 0 \<le> d \<and> d < 1 \<and> check_sensitivity_positive s = Inr ()
      then Inr \<lparr>gau_sensitivity = s, gau_epsilon_delta = (e, d),
                gau_query = (case q of None \<Rightarrow> IdentityFunction_get | Some f \<Rightarrow> f)\<rparr>
      else Inl ValueError)"
proof -
  have pos: "check_sensitivity_positive s = Inr () \<or> check_sensitivity_positive s = Inl ValueError"
    by (cases s) auto
  then show ?thesis
    by (auto simp: GaussianMechanism_init_def check_epsilon_delta_def Let_def split: sum.splits)
qed

lemma ln3_le_2: "ln (3::real) \<le> 2"
  using ln_le_minus_one [of "3::real"] by simp

lemma laplace_init_cases:
  assumes "LaplaceMechanism_init s e q = Inr self"
  shows "0 < e" and "check_sensitivity_positive s = Inr ()"
    and "self = \<lparr>lap_sensitivity = s, lap_epsilon = e,
           lap_query = (case q of None \<Rightarrow> IdentityFunction_get | Some f \<Rightarrow> f)\<rparr>"
  using assms
  by (auto simp: LaplaceMechanism_init_def check_epsilon_delta_def Let_def
      split: sum.splits if_splits)

lemma add_noise_nth:
  fixes xs :: "real list"
  shows "map2 (+) xs (map f [0..<length xs]) = map (\<lambda>i. xs ! i + f i) [0..<length xs]"
  by (rule nth_equalityI) simp_all

lemma laplace_noise_scalar:
  assumes "0 \<le> b"
  shows "loc_scale_sample z 0 [] [b] sh g =
      (Inr (map (\<lambda>i. b * z (consumed g + i)) [0..<prod_list sh]), advance g (prod_list sh))"
  using loc_scale_sample_scalar [OF assms, of z 0 sh g] by simp

lemma laplace_noise_same:
  assumes "length bs = prod_list sh" "list_all (\<lambda>b. 0 \<le> b) bs"
  shows "loc_scale_sample z 0 sh bs sh g =
      (Inr (map (\<lambda>i. bs ! i * z (consumed g + i)) [0..<prod_list sh]), advance g (prod_list sh))"
  using loc_scale_sample_same [OF assms, of z 0 g] by simp

lemma laplace_apply_scalar_sensitivity:
  assumes init: "LaplaceMechanism_init s e q = Inr self"
    and s: "np_asarray s = NdArray [] [sv]"
    and inst: "isinstance_scalar_or_ndarray (lap_query self data)"
    and qr: "np_asarray (lap_query self data) = NdArray sh xs"
    and wf: "length xs = prod_list sh"
  shows "LaplaceMechanism_apply self data g =
    (Inr (NdArray sh (map (\<lambda>i. xs ! i + sv / e * standard_laplace g (consumed g + i))
        [0..<length xs])),
     self\<lparr>lap_sensitivity := NdArray [] [sv]\<rparr>, advance g (length xs))"
proof -
  note c = laplace_init_cases [OF init]
  have fields: "lap_sensitivity self = s" "lap_epsilon self = e"
    by (simp_all add: c(3))
  have pos: "0 < sv"
    using c(2) s by (cases s) (auto split: if_splits)
  have chk: "check_sensitivity_shape (NdArray [] [sv]) (lap_query self data) = Inr ()"
    using inst qr by (cases "lap_query self data") auto
  define b where "b = sv / e"
  have b: "0 \<le> b" using pos c(1) by (simp add: b_def)
  have div: "truediv (NdArray [] [sv]) e = Inr (NdArray [] [b])"
    using c(1) by (simp add: b_def)
  have noise: "np_random_laplace 0 (NdArray [] [b]) sh g =
      (Inr (map (\<lambda>i. b * standard_laplace g (consumed g + i)) [0..<length xs]),
       advance g (length xs))"
    using laplace_noise_scalar [OF b] wf by simp
  have "LaplaceMechanism_apply self data g =
    (Inr (NdArray sh (map (\<lambda>i. xs ! i + b * standard_laplace g (consumed g + i))
        [0..<length xs])),
     self\<lparr>lap_sensitivity := NdArray [] [sv]\<rparr>, advance g (length xs))"
    unfolding LaplaceMechanism_apply_def
    using inst
    by (simp add: Let_def fields s chk div qr noise add_noise_nth del: np_random_laplace.simps truediv.simps)
  then show ?thesis by (simp add: b_def)
qed

lemma laplace_apply_array_sensitivity:
  assumes init: "LaplaceMechanism_init s e q = Inr self"
    and s: "np_asarray s = NdArray sh ss"
    and wfs: "length ss = prod_list sh"
    and inst: "isinstance_scalar_or_ndarray (lap_query self data)"
    and qr: "np_asarray (lap_query self data) = NdArray sh xs"
    and wf: "length xs = prod_list sh"
  shows "LaplaceMechanism_apply self data g =
    (Inr (NdArray sh (map (\<lambda>i. xs ! i + ss ! i / e * standard_laplace g (consumed g + i))
        [0..<length xs])),
     self\<lparr>lap_sensitivity := NdArray sh ss\<rparr>, advance g (length xs))"
proof -
  note c = laplace_init_cases [OF init]
  have fields: "lap_sensitivity self = s" "lap_epsilon self = e"
    by (simp_all add: c(3))
  have pos: "list_all (\<lambda>x. 0 < x) ss"
    using c(2) s by (cases s) (auto split: if_splits)
  have chk: "check_sensitivity_shape (NdArray sh ss) (lap_query self data) = Inr ()"
    using inst qr by (cases "lap_query self data") auto
  define bs where "bs = map (\<lambda>x. x / e) ss"
  have b: "list_all (\<lambda>b. 0 \<le> b) bs"
    using pos c(1) by (auto simp: bs_def list_all_iff intro: less_imp_le)
  have len: "length bs = prod_list sh" using wfs by (simp add: bs_def)
  have div: "truediv (NdArray sh ss) e = Inr (NdArray sh bs)"
    using c(1) by (simp add: bs_def)
  have noise: "np_random_laplace 0 (NdArray sh bs) sh g =
     (Inr (map (\<lambda>i. bs ! i * standard_laplace g (consumed g + i)) [0..<length xs]),
      advance g (length xs))"
    using laplace_noise_same [OF len b] wf by simp
  have "LaplaceMechanism_apply self data g =
    (Inr (NdArray sh (map (\<lambda>i. xs ! i + bs ! i * standard_laplace g (consumed g + i))
        [0..<length xs])),
     self\<lparr>lap_sensitivity := NdArray sh ss\<rparr>, advance g (length xs))"
    unfolding LaplaceMechanism_apply_def
    using inst
    by (simp add: Let_def fields s chk div qr noise add_noise_nth del: np_random_laplace.simps truediv.simps)
  moreover have "map (\<lambda>i. xs ! i + bs ! i * standard_laplace g (consumed g + i)) [0..<length xs]
    = map (\<lambda>i. xs ! i + ss ! i / e * standard_laplace g (consumed g + i)) [0..<length xs]"
    using wf wfs by (simp add: bs_def)
  ultimately show ?thesis by simp
qed

lemma laplace_items_scalar:
  assumes "wf_items qd"
    and "\<And>k. k \<in> fst ` set qd \<Longrightarrow> scale k = Inr (NdArray [] [b k]) \<or> scale k = Inr (PyFloat (b k))"
    and "\<And>k. k \<in> fst ` set qd \<Longrightarrow> 0 \<le> b k"
  shows "laplace_items scale qd g =
    (Inr (noise_per_key b (standard_laplace g) (consumed g) qd), advance g (items_size qd))"
  using assms
proof (induction qd arbitrary: g)
  case Nil
  then show ?case by (simp add: advance_def)
next
  case (Cons kv kvs)
  obtain k sh xs where kv: "kv = (k, sh, xs)" by (cases kv) auto
  have wf: "length xs = prod_list sh" and wfr: "wf_items kvs"
    using Cons.prems(1) by (simp_all add: wf_items_def kv)
  have bk: "0 \<le> b k" using Cons.prems(3) [of k] by (simp add: kv)
  have sk: "scale k = Inr (NdArray [] [b k]) \<or> scale k = Inr (PyFloat (b k))"
    using Cons.prems(2) [of k] by (simp add: kv)
  let ?g1 = "advance g (length xs)"
  have g1: "standard_laplace ?g1 = standard_laplace g" "consumed ?g1 = consumed g + length xs"
    "advance ?g1 (items_size kvs) = advance g (length xs + items_size kvs)"
    by (simp_all add: advance_def)
  have rest: "laplace_items scale kvs ?g1 =
    (Inr (noise_per_key b (standard_laplace g) (consumed g + length xs) kvs),
     advance g (length xs + items_size kvs))"
    using Cons.IH [OF wfr, of ?g1] Cons.prems(2,3) by (simp add: g1)
  have noise: "loc_scale_sample (standard_laplace g) 0 [] [b k] sh g =
      (Inr (map (\<lambda>i. b k * standard_laplace g (consumed g + i)) [0..<length xs]), ?g1)"
    using laplace_noise_scalar [OF bk] wf by simp
  from sk show ?case
  proof
    assume "scale k = Inr (NdArray [] [b k])"
    then show ?thesis
      by (simp add: kv noise rest add_noise_nth)
  next
    assume "scale k = Inr (PyFloat (b k))"
    then show ?thesis
      by (simp add: kv noise rest add_noise_nth)
  qed
qed

lemma laplace_apply_mapping_scalar_sensitivity:
  assumes init: "LaplaceMechanism_init s e q = Inr self"
    and s: "np_asarray s = NdArray [] [sv]"
    and qr: "lap_query self data = PyDict qd"
    and wf: "wf_items qd"
  shows "LaplaceMechanism_apply self data g =
    (Inr (PyDict (noise_per_key (\<lambda>k. sv / e) (standard_laplace g) (consumed g) qd)),
     self, advance g (items_size qd))"
proof -
  note c = laplace_init_cases [OF init]
  have fields: "lap_sensitivity self = s" "lap_epsilon self = e"
    by (simp_all add: c(3))
  have pos: "0 < sv"
    using c(2) s by (cases s) (auto split: if_splits)
  have b: "0 \<le> sv / e" using pos c(1) by simp
  from s consider (float) "s = PyFloat sv" | (array) "s = NdArray [] [sv]"
    by (cases s) auto
  then show ?thesis
  proof cases
    case float
    have "laplace_items (\<lambda>k. Inr (PyFloat (sv / e))) qd g =
      (Inr (noise_per_key (\<lambda>k. sv / e) (standard_laplace g) (consumed g) qd),
       advance g (items_size qd))"
      using wf b by (intro laplace_items_scalar) simp_all
    then show ?thesis
      unfolding LaplaceMechanism_apply_def
      using c(1) by (simp add: Let_def fields float qr)
  next
    case array
    have "laplace_items (\<lambda>k. Inr (NdArray [] [sv / e])) qd g =
      (Inr (noise_per_key (\<lambda>k. sv / e) (standard_laplace g) (consumed g) qd),
       advance g (items_size qd))"
      using wf b by (intro laplace_items_scalar) simp_all
    then show ?thesis
      unfolding LaplaceMechanism_apply_def
      using c(1) by (simp add: Let_def fields array qr)
  qed
qed

lemma map_of_scale_items:
  "map_of (map (\<lambda>(k, sh, xs). (k, sh, map (\<lambda>x. x / e) xs)) sd) k =
     map_option (\<lambda>(sh, xs). (sh, map (\<lambda>x. x / e) xs)) (map_of sd k)"
  by (induction sd) auto

lemma scalar_items_lookup:
  assumes "scalar_items sd" "k \<in> fst ` set sd"
  shows "\<exists>x. map_of sd k = Some ([], [x])"
  using assms
proof (induction sd)
  case Nil
  then show ?case by simp
next
  case (Cons a sd)
  obtain k' sh xs where a: "a = (k', sh, xs)" by (cases a) auto
  show ?case
  proof (cases "k' = k")
    case True
    from Cons.prems(1) have "sh = []" "length xs = 1"
      by (simp_all add: scalar_items_def a)
    then obtain x where "xs = [x]" by (cases xs) auto
    with True \<open>sh = []\<close> show ?thesis by (simp add: a)
  next
    case False
    then show ?thesis using Cons by (auto simp: a scalar_items_def)
  qed
qed

lemma positive_items_lookup:
  assumes "check_sensitivity_positive (PyDict sd) = Inr ()" "map_of sd k = Some (sh, xs)"
  shows "list_all (\<lambda>x. 0 < x) xs"
proof -
  from assms(2) have "(k, sh, xs) \<in> set sd" by (rule map_of_SomeD)
  with assms(1) show ?thesis
    by (auto simp: list_all_iff split: if_splits)
qed

lemma laplace_apply_mapping_keyed_sensitivity:
  assumes init: "LaplaceMechanism_init (PyDict sd) e q = Inr self"
    and sc: "scalar_items sd"
    and qr: "lap_query self data = PyDict qd"
    and keys: "set (map fst sd) = set (map fst qd)"
    and wf: "wf_items qd"
  shows "LaplaceMechanism_apply self data g =
    (Inr (PyDict (noise_per_key (\<lambda>k. sensitivity_of sd k / e) (standard_laplace g) (consumed g) qd)),
     self, advance g (items_size qd))"
proof -
  note c = laplace_init_cases [OF init]
  have fields: "lap_sensitivity self = PyDict sd" "lap_epsilon self = e"
    by (simp_all add: c(3))
  let ?b = "map (\<lambda>(k, sh, xs). (k, sh, map (\<lambda>x. x / e) xs)) sd"
  have si: "scale_items sd e = Inr ?b"
    using c(1) by (simp add: scale_items_def)
  have look: "getitem ?b k = Inr (NdArray [] [sensitivity_of sd k / e]) \<and> 0 \<le> sensitivity_of sd k / e"
    if "k \<in> fst ` set qd" for k
  proof -
    from that keys have "k \<in> fst ` set sd" by auto
    with sc obtain x where x: "map_of sd k = Some ([], [x])"
      using scalar_items_lookup by blast
    from positive_items_lookup [OF c(2) x] have "0 < x" by simp
    with x c(1) show ?thesis
      by (simp add: getitem_def map_of_scale_items sensitivity_of_def)
  qed
  have "laplace_items (getitem ?b) qd g =
      (Inr (noise_per_key (\<lambda>k. sensitivity_of sd k / e) (standard_laplace g) (consumed g) qd),
       advance g (items_size qd))"
    using wf look by (intro laplace_items_scalar) simp_all
  then show ?thesis
    unfolding LaplaceMechanism_apply_def
    using keys by (simp add: Let_def fields qr si)
qed

lemma laplace_inits:
  "LaplaceMechanism_init (PyFloat 2) (1 / 2) None = Inr laplace_scalar"
  "LaplaceMechanism_init (NdArray [2] [1, 2]) (1 / 2) None = Inr laplace_array"
  "LaplaceMechanism_init (PyDict [(''a'', [], [1]), (''b'', [], [2])]) (1 / 2) None = Inr laplace_keyed"
  by (simp_all add: LaplaceMechanism_init_def check_epsilon_delta_def laplace_scalar_def
      laplace_array_def laplace_keyed_def)

lemma gaussian_log_nonneg:
  fixes d :: real
  assumes "0 < d" "d < 1"
  shows "0 \<le> ln (1.25 / d)"
proof -
  have "1 \<le> 5 / (4 * d)" using assms by (simp add: field_simps)
  then have "0 \<le> ln (5 / (4 * d))" by (rule ln_ge_zero)
  then show ?thesis by simp
qed

lemma gaussian_factor_positive_delta:
  assumes "0 < d" "d < 1"
  shows "gaussian_factor d = Inr (sqrt (2 * ln (1.25 / d)))"
  using assms gaussian_log_nonneg [OF assms] by (simp add: gaussian_factor_def)

lemma gaussian_init_fields:
  assumes "GaussianMechanism_init s (e, d) q = Inr self"
  shows "0 < e" "e < 1" "0 \<le> d" "d < 1" "check_sensitivity_positive s = Inr ()"
    "gau_sensitivity self = s" "gau_epsilon_delta self = (e, d)"
  using assms by (auto simp: gaussian_init_cases split: if_splits)

lemma gaussian_apply_scalar_sensitivity:
  assumes init: "GaussianMechanism_init s (e, d) q = Inr self"
    and d: "0 < d"
    and s: "np_asarray s = NdArray [] [sv]"
    and qr: "np_asarray (gau_query self data) = NdArray sh xs"
    and wf: "length xs = prod_list sh"
  shows "GaussianMechanism_apply self data g =
    (Inr (NdArray sh (map (\<lambda>i. xs ! i +
        sqrt (2 * ln (1.25 / d)) * sv / e * standard_normal g (consumed g + i)) [0..<length xs])),
     advance g (length xs))"
proof -
  note c = gaussian_init_fields [OF init]
  define k where "k = sqrt (2 * ln (1.25 / d))"
  have fac: "gaussian_factor d = Inr k"
    using gaussian_factor_positive_delta [OF d c(4)] by (simp add: k_def)
  have k: "0 \<le> k" using gaussian_log_nonneg [OF d c(4)] by (simp add: k_def)
  have pos: "0 < sv"
    using c(5) s by (cases s) (auto split: if_splits)
  define b where "b = k * sv / e"
  have b: "0 \<le> b" using pos c(1) k by (simp add: b_def)
  have std: "truediv (NdArray [] [k * sv]) e = Inr (NdArray [] [b])"
    using c(1) by (simp add: b_def)
  have noise: "loc_scale_sample (standard_normal g) 0 [] [b] sh g =
      (Inr (map (\<lambda>i. b * standard_normal g (consumed g + i)) [0..<length xs]),
       advance g (length xs))"
    using laplace_noise_scalar [OF b] wf by simp
  have "GaussianMechanism_apply self data g =
    (Inr (NdArray sh (map (\<lambda>i. xs ! i + b * standard_normal g (consumed g + i)) [0..<length xs])),
     advance g (length xs))"
    unfolding GaussianMechanism_apply_def
    by (simp add: Let_def c(6,7) s qr fac std noise add_noise_nth del: truediv.simps)
  then show ?thesis by (simp add: b_def k_def)
qed

lemma gaussian_apply_array_sensitivity:
  assumes init: "GaussianMechanism_init s (e, d) q = Inr self"
    and d: "0 < d"
    and s: "np_asarray s = NdArray sh ss"
    and wfs: "length ss = prod_list sh"
    and qr: "np_asarray (gau_query self data) = NdArray sh xs"
    and wf: "length xs = prod_list sh"
  shows "GaussianMechanism_apply self data g =
    (Inr (NdArray sh (map (\<lambda>i. xs ! i +
        sqrt (2 * ln (1.25 / d)) * ss ! i / e * standard_normal g (consumed g + i)) [0..<length xs])),
     advance g (length xs))"
proof -
  note c = gaussian_init_fields [OF init]
  define k where "k = sqrt (2 * ln (1.25 / d))"
  have fac: "gaussian_factor d = Inr k"
    using gaussian_factor_positive_delta [OF d c(4)] by (simp add: k_def)
  have k: "0 \<le> k" using gaussian_log_nonneg [OF d c(4)] by (simp add: k_def)
  have pos: "list_all (\<lambda>x. 0 < x) ss"
    using c(5) s by (cases s) (auto split: if_splits)
  define bs where "bs = map (\<lambda>x. x / e) (map (\<lambda>x. k * x) ss)"
  have b: "list_all (\<lambda>b. 0 \<le> b) bs"
    using pos c(1) k by (auto simp: bs_def list_all_iff intro: less_imp_le)
  have len: "length bs = prod_list sh" using wfs by (simp add: bs_def)
  have std: "truediv (NdArray sh (map (\<lambda>x. k * x) ss)) e = Inr (NdArray sh bs)"
    using c(1) by (simp add: bs_def)
  have noise: "loc_scale_sample (standard_normal g) 0 sh bs sh g =
     (Inr (map (\<lambda>i. bs ! i * standard_normal g (consumed g + i)) [0..<length xs]),
      advance g (length xs))"
    using laplace_noise_same [OF len b] wf by simp
  have "GaussianMechanism_apply self data g =
    (Inr (NdArray sh (map (\<lambda>i. xs ! i + bs ! i * standard_normal g (consumed g + i))
        [0..<length xs])),
     advance g (length xs))"
    unfolding GaussianMechanism_apply_def
    by (simp add: Let_def c(6,7) s qr fac std noise add_noise_nth del: truediv.simps)
  moreover have "map (\<lambda>i. xs ! i + bs ! i * standard_normal g (consumed g + i)) [0..<length xs]
    = map (\<lambda>i. xs ! i + k * ss ! i / e * standard_normal g (consumed g + i)) [0..<length xs]"
    using wf wfs by (simp add: bs_def)
  ultimately show ?thesis by (simp add: k_def)
qed

lemma gaussian_apply_delta_zero:
  assumes "snd (gau_epsilon_delta self) = 0"
    and "check_sensitivity_shape (np_asarray (gau_sensitivity self))
           (np_asarray (gau_query self data)) = Inr ()"
  shows "GaussianMechanism_apply self data g = (Inl ZeroDivisionError, g)"
  using assms by (simp add: GaussianMechanism_apply_def Let_def gaussian_factor_def)

lemma gaussian_delta_range: "(0::real) < 5 / 4 * exp (- 2)" "5 / 4 * exp (- 2) < (1::real)"
proof -
  show "(0::real) < 5 / 4 * exp (- 2)" by simp
  have "1 + (2::real) \<le> exp 2" by (rule exp_ge_add_one_self)
  then have "5 / 4 < exp (2::real)" by simp
  then have "5 / 4 * exp (- 2) < exp (2::real) * exp (- 2)"
    by (intro mult_strict_right_mono) simp_all
  also have "\<dots> = 1" by (simp add: exp_minus)
  finally show "5 / 4 * exp (- 2) < (1::real)" .
qed

lemma gaussian_inits:
  "GaussianMechanism_init (PyFloat 1) (1 / 2, 5 / 4 * exp (- 2)) None = Inr gaussian_half"
  "GaussianMechanism_init (NdArray [2] [1, 2]) (1 / 2, 5 / 4 * exp (- 2)) None = Inr gaussian_array"
  using gaussian_delta_range
  by (simp_all add: gaussian_init_cases gaussian_half_def gaussian_array_def)

lemma gaussian_std_value: "sqrt (2 * ln (1.25 / (5 / 4 * exp (- 2)))) = (2::real)"
proof -
  have "(5 / 4 :: real) / (5 / 4 * exp (- 2)) = 1 / exp (- 2)"
    by simp
  also have "\<dots> = exp (2::real)"
    by (simp add: exp_minus divide_inverse)
  finally have "ln ((5 / 4 :: real) / (5 / 4 * exp (- 2))) = 2"
    by simp
  then have "2 * ln ((5 / 4 :: real) / (5 / 4 * exp (- 2))) = 4"
    by simp
  moreover have "(1.25 :: real) = 5 / 4" by simp
  ultimately have "sqrt (2 * ln (1.25 / (5 / 4 * exp (- 2)))) = sqrt (4::real)"
    by (simp only:)
  then show ?thesis by (simp only: real_sqrt_four)
qed


lemma sum_list_map_divide:
  fixes xs :: "real list"
  shows "sum_list (map (\<lambda>x. x / c) xs) = sum_list xs / c"
  by (induction xs) (simp_all add: add_divide_distrib)




















subsection \<open>RandomizedResponseCoins\<close>

text \<open>
  C9. Whatever probabilities a RandomizedResponseCoins instance is constructed with, its
  \<open>epsilon_delta\<close> property is the pair (ln 3, 0).
\<close>

theorem coins_epsilon_delta_fixed:
  "RandomizedResponseCoins_epsilon_delta (RandomizedResponseCoins_init p1 p2) = (ln 3, 0)"
  by (simp add: RandomizedResponseCoins_epsilon_delta_def RandomizedResponseCoins_init_def)

text \<open>
  C7. For an instance whose two probabilities lie in [0,1] (outside that range the Bernoulli
  sampler raises a domain error) and a binary input, \<open>apply\<close> returns the array of the
  input's shape whose element \<open>i\<close> is \<open>data\<^sub>i * first\<^sub>i + (1 - first\<^sub>i) * second\<^sub>i\<close>, where
  \<open>first\<^sub>i\<close> is a Bernoulli draw with success probability \<open>1 - prob_head_first\<close> and
  \<open>second\<^sub>i\<close> one with success probability \<open>prob_head_second\<close>; the \<open>2n\<close> draws use \<open>2n\<close>
  different uniform variates of the generator.
\<close>

theorem coins_apply_closed_form:
  assumes "np_asarray data = NdArray sh xs" "length xs = prod_list sh"
    "list_all (\<lambda>x. x = 0 \<or> x = 1) xs"
    "0 \<le> prob_head_first self" "prob_head_first self \<le> 1"
    "0 \<le> prob_head_second self" "prob_head_second self \<le> 1"
  shows "RandomizedResponseCoins_apply self data g =
    (Inr (NdArray sh (map (\<lambda>i.
        xs ! i * bernoulli (1 - prob_head_first self) (random_sample g (consumed g + i))
        + (1 - bernoulli (1 - prob_head_first self) (random_sample g (consumed g + i)))
          * bernoulli (prob_head_second self) (random_sample g (consumed g + length xs + i)))
        [0..<length xs])),
     advance g (2 * length xs))"
proof -
  let ?n = "length xs"
  let ?g1 = "advance g ?n"
  let ?F = "map (bernoulli (1 - prob_head_first self)) (draws (random_sample g) g ?n)"
  let ?S = "map (bernoulli (prob_head_second self)) (draws (random_sample ?g1) ?g1 ?n)"
  have b1: "bernoulli_rvs_size (1 - prob_head_first self) sh g = (Inr ?F, ?g1)"
    using assms by (simp add: bernoulli_rvs_size_def)
  have b2: "bernoulli_rvs_size (prob_head_second self) sh ?g1 = (Inr ?S, advance ?g1 ?n)"
    using assms by (simp add: bernoulli_rvs_size_def)
  have adv: "advance ?g1 ?n = advance g (2 * ?n)"
    by (simp add: advance_def)
  have body: "map2 (\<lambda>d (f, s). d * f + (1 - f) * s) xs (zip ?F ?S) =
      map (\<lambda>i. xs ! i * bernoulli (1 - prob_head_first self) (random_sample g (consumed g + i))
        + (1 - bernoulli (1 - prob_head_first self) (random_sample g (consumed g + i)))
          * bernoulli (prob_head_second self) (random_sample g (consumed g + ?n + i)))
        [0..<?n]"
    by (rule nth_equalityI) (simp_all add: length_draws draws_nth advance_def)
  show ?thesis
    unfolding RandomizedResponseCoins_apply_def
    using assms(1,3) b1 b2 adv body by simp
qed

theorem coins_apply_closed_form_witness:
  "np_asarray (PyList [1, 0]) = NdArray [2] [1, 0] \<and>
   list_all (\<lambda>x. x = 0 \<or> x = 1) [1, 0 :: real] \<and>
   prob_head_first coins_fair = 1 / 2 \<and> prob_head_second coins_fair = 1 / 2 \<and>
   RandomizedResponseCoins_apply coins_fair (PyList [1, 0]) rng0 =
     (Inr (NdArray [2] [0, 0]), advance rng0 4)"
  using coins_apply_closed_form [of "PyList [1, 0]" "[2]" "[1, 0]" coins_fair rng0]
  by (simp add: coins_fair_def RandomizedResponseCoins_init_def rng0_def bernoulli_def advance_def)

subsection \<open>RandomizedResponseBinary\<close>




text \<open>
  C8. For an instance that the constructor accepted and a binary input, \<open>apply\<close> returns
  the array of the input's shape whose element \<open>i\<close> is a Bernoulli draw with success
  probability \<open>f1\<close> where the input element is 1 and \<open>1 - f0\<close> where it is 0, each element
  with a uniform variate of its own.
\<close>

theorem binary_apply_bernoulli:
  assumes "RandomizedResponseBinary_init a b e = Inr self"
    "np_asarray data = NdArray sh xs"
    "list_all (\<lambda>x. x = 0 \<or> x = 1) xs"
  shows "RandomizedResponseBinary_apply self data g =
    (Inr (NdArray sh (map (\<lambda>i.
        bernoulli (if xs ! i = 1 then f1 self else 1 - f0 self) (random_sample g (consumed g + i)))
        [0..<length xs])),
     advance g (length xs))"
proof -
  from assms(1) have self: "self = \<lparr>f0 = a, f1 = b, rrb_epsilon = e\<rparr>" and
    r: "0 < a" "a < 1" "0 < b" "b < 1"
    by (auto simp: binary_init_cases split: if_splits)
  let ?ps = "map (\<lambda>x. if x = 0 then 1 - f0 self else f1 self) xs"
  have ok: "list_all (\<lambda>p. 0 \<le> p \<and> p \<le> 1) ?ps"
    using r by (auto simp: self list_all_iff)
  have body: "map2 bernoulli ?ps (draws (random_sample g) g (length xs)) =
     map (\<lambda>i. bernoulli (if xs ! i = 1 then f1 self else 1 - f0 self)
        (random_sample g (consumed g + i))) [0..<length xs]"
  proof (rule nth_equalityI)
    show "length (map2 bernoulli ?ps (draws (random_sample g) g (length xs))) =
      length (map (\<lambda>i. bernoulli (if xs ! i = 1 then f1 self else 1 - f0 self)
        (random_sample g (consumed g + i))) [0..<length xs])"
      by (simp add: length_draws)
  next
    fix i assume "i < length (map2 bernoulli ?ps (draws (random_sample g) g (length xs)))"
    then have i: "i < length xs" by (simp add: length_draws)
    with assms(3) have "xs ! i = 0 \<or> xs ! i = 1"
      by (simp add: list_all_length)
    then show "map2 bernoulli ?ps (draws (random_sample g) g (length xs)) ! i =
      map (\<lambda>i. bernoulli (if xs ! i = 1 then f1 self else 1 - f0 self)
        (random_sample g (consumed g + i))) [0..<length xs] ! i"
      using i by (auto simp: length_draws draws_nth)
  qed
  have "bernoulli_rvs ?ps g =
     (Inr (map2 bernoulli ?ps (draws (random_sample g) g (length xs))), advance g (length xs))"
    using ok by (simp add: bernoulli_rvs_def)
  then show ?thesis
    unfolding RandomizedResponseBinary_apply_def
    using assms(2,3) body by (simp add: Let_def)
qed

theorem binary_apply_bernoulli_witness:
  "RandomizedResponseBinary_init (3 / 4) (3 / 4) 2 = Inr \<lparr>f0 = 3 / 4, f1 = 3 / 4, rrb_epsilon = 2\<rparr> \<and>
   np_asarray (NdArray [2, 2] [1, 0, 0, 1]) = NdArray [2, 2] [1, 0, 0, 1] \<and>
   list_all (\<lambda>x. x = 0 \<or> x = 1) [1, 0, 0, 1 :: real] \<and>
   RandomizedResponseBinary_apply \<lparr>f0 = 3 / 4, f1 = 3 / 4, rrb_epsilon = 2\<rparr>
       (NdArray [2, 2] [1, 0, 0, 1]) rng0 =
     (Inr (NdArray [2, 2] [0, 0, 0, 1]), advance rng0 4)"
  using binary_apply_bernoulli [of "3 / 4" "3 / 4" 2 "\<lparr>f0 = 3 / 4, f1 = 3 / 4, rrb_epsilon = 2\<rparr>"
      "NdArray [2, 2] [1, 0, 0, 1]" "[2, 2]" "[1, 0, 0, 1]" rng0]
  by (simp add: binary_init_cases ln3_le_2 rng0_def bernoulli_def advance_def)

subsection \<open>LaplaceMechanism\<close>

text \<open>
  C4. For an instance that the constructor accepted (positive sensitivity \<open>s\<close>, positive
  epsilon \<open>e\<close>), \<open>apply\<close> returns the query result plus Laplace noise of location 0 and of the
  result's shape, each element with a standard variate of its own, and the scale is:
  \<open>s / e\<close> for a scalar or array result and a scalar \<open>s\<close>; \<open>s\<^sub>i / e\<close> elementwise when the
  result and \<open>s\<close> are arrays of one shape; \<open>s / e\<close> for every key when the result is a mapping
  and \<open>s\<close> a scalar; \<open>s[k] / e\<close> for key \<open>k\<close> when the result and \<open>s\<close> are mappings over the
  same keys, whatever the sensitivities of the other keys.
\<close>

theorem laplace_apply_noise_scale:
  assumes init: "LaplaceMechanism_init s e q = Inr self"
  shows
    "(np_asarray s = NdArray [] [sv] \<and> isinstance_scalar_or_ndarray (lap_query self data) \<and>
      np_asarray (lap_query self data) = NdArray sh xs \<and> length xs = prod_list sh \<longrightarrow>
        LaplaceMechanism_apply self data g =
          (Inr (NdArray sh (map (\<lambda>i. xs ! i + sv / e * standard_laplace g (consumed g + i))
              [0..<length xs])),
           self\<lparr>lap_sensitivity := NdArray [] [sv]\<rparr>, advance g (length xs))) \<and>
     (np_asarray s = NdArray sh ss \<and> length ss = prod_list sh \<and>
      isinstance_scalar_or_ndarray (lap_query self data) \<and>
      np_asarray (lap_query self data) = NdArray sh xs \<and> length xs = prod_list sh \<longrightarrow>
        LaplaceMechanism_apply self data g =
          (Inr (NdArray sh (map (\<lambda>i. xs ! i + ss ! i / e * standard_laplace g (consumed g + i))
              [0..<length xs])),
           self\<lparr>lap_sensitivity := NdArray sh ss\<rparr>, advance g (length xs))) \<and>
     (np_asarray s = NdArray [] [sv] \<and> lap_query self data = PyDict qd \<and> wf_items qd \<longrightarrow>
        LaplaceMechanism_apply self data g =
          (Inr (PyDict (noise_per_key (\<lambda>k. sv / e) (standard_laplace g) (consumed g) qd)),
           self, advance g (items_size qd))) \<and>
     (s = PyDict sd \<and> scalar_items sd \<and> lap_query self data = PyDict qd \<and>
      set (map fst sd) = set (map fst qd) \<and> wf_items qd \<longrightarrow>
        LaplaceMechanism_apply self data g =
          (Inr (PyDict (noise_per_key (\<lambda>k. sensitivity_of sd k / e) (standard_laplace g)
              (consumed g) qd)),
           self, advance g (items_size qd)))"
proof (intro conjI impI)
  assume "np_asarray s = NdArray [] [sv] \<and> isinstance_scalar_or_ndarray (lap_query self data) \<and>
      np_asarray (lap_query self data) = NdArray sh xs \<and> length xs = prod_list sh"
  then show "LaplaceMechanism_apply self data g =
          (Inr (NdArray sh (map (\<lambda>i. xs ! i + sv / e * standard_laplace g (consumed g + i))
              [0..<length xs])),
           self\<lparr>lap_sensitivity := NdArray [] [sv]\<rparr>, advance g (length xs))"
    by (elim conjE) (rule laplace_apply_scalar_sensitivity [OF init])
next
  assume "np_asarray s = NdArray sh ss \<and> length ss = prod_list sh \<and>
      isinstance_scalar_or_ndarray (lap_query self data) \<and>
      np_asarray (lap_query self data) = NdArray sh xs \<and> length xs = prod_list sh"
  then show "LaplaceMechanism_apply self data g =
          (Inr (NdArray sh (map (\<lambda>i. xs ! i + ss ! i / e * standard_laplace g (consumed g + i))
              [0..<length xs])),
           self\<lparr>lap_sensitivity := NdArray sh ss\<rparr>, advance g (length xs))"
    by (elim conjE) (rule laplace_apply_array_sensitivity [OF init])
next
  assume "np_asarray s = NdArray [] [sv] \<and> lap_query self data = PyDict qd \<and> wf_items qd"
  then show "LaplaceMechanism_apply self data g =
          (Inr (PyDict (noise_per_key (\<lambda>k. sv / e) (standard_laplace g) (consumed g) qd)),
           self, advance g (items_size qd))"
    by (elim conjE) (rule laplace_apply_mapping_scalar_sensitivity [OF init])
next
  assume a: "s = PyDict sd \<and> scalar_items sd \<and> lap_query self data = PyDict qd \<and>
      set (map fst sd) = set (map fst qd) \<and> wf_items qd"
  then have "LaplaceMechanism_init (PyDict sd) e q = Inr self"
    using init by simp
  then show "LaplaceMechanism_apply self data g =
          (Inr (PyDict (noise_per_key (\<lambda>k. sensitivity_of sd k / e) (standard_laplace g)
              (consumed g) qd)),
           self, advance g (items_size qd))"
    using a by (elim conjE) (rule laplace_apply_mapping_keyed_sensitivity)
qed

theorem laplace_apply_noise_scale_witness:
  "LaplaceMechanism_init (PyFloat 2) (1 / 2) None = Inr laplace_scalar \<and>
   LaplaceMechanism_apply laplace_scalar (NdArray [2] [10, 20]) rng0 =
     (Inr (NdArray [2] [6, 20]), laplace_scalar\<lparr>lap_sensitivity := NdArray [] [2]\<rparr>, advance rng0 2) \<and>
   LaplaceMechanism_init (NdArray [2] [1, 2]) (1 / 2) None = Inr laplace_array \<and>
   LaplaceMechanism_apply laplace_array (NdArray [2] [10, 20]) rng0 =
     (Inr (NdArray [2] [8, 20]), laplace_array, advance rng0 2) \<and>
   LaplaceMechanism_apply laplace_scalar mapping_data rng0 =
     (Inr (PyDict [(''a'', [1], [6]), (''b'', [2], [20, 34])]), laplace_scalar, advance rng0 3) \<and>
   LaplaceMechanism_init (PyDict [(''a'', [], [1]), (''b'', [], [2])]) (1 / 2) None = Inr laplace_keyed \<and>
   LaplaceMechanism_apply laplace_keyed mapping_data rng0 =
     (Inr (PyDict [(''a'', [1], [8]), (''b'', [2], [20, 34])]), laplace_keyed, advance rng0 3)"
proof -
  have q: "lap_query laplace_scalar = IdentityFunction_get"
    "lap_query laplace_array = IdentityFunction_get"
    "lap_query laplace_keyed = IdentityFunction_get"
    by (simp_all add: laplace_scalar_def laplace_array_def laplace_keyed_def)
  have c: "consumed rng0 = 0" "standard_laplace rng0 = (\<lambda>k. real k - 1)"
    by (simp_all add: rng0_def)
  have 1: "LaplaceMechanism_apply laplace_scalar (NdArray [2] [10, 20]) rng0 =
     (Inr (NdArray [2] [6, 20]), laplace_scalar\<lparr>lap_sensitivity := NdArray [] [2]\<rparr>, advance rng0 2)"
    using laplace_apply_noise_scale [OF laplace_inits(1), of 2 "NdArray [2] [10, 20]" "[2]" "[10, 20]" rng0]
    by (simp add: q c IdentityFunction_get_def advance_def)
  have 2: "LaplaceMechanism_apply laplace_array (NdArray [2] [10, 20]) rng0 =
     (Inr (NdArray [2] [8, 20]), laplace_array, advance rng0 2)"
    using laplace_apply_noise_scale [OF laplace_inits(2), of _ "NdArray [2] [10, 20]" "[2]" "[10, 20]" rng0 "[1, 2]"]
    by (simp add: q c IdentityFunction_get_def laplace_array_def advance_def)
  have 3: "LaplaceMechanism_apply laplace_scalar mapping_data rng0 =
     (Inr (PyDict [(''a'', [1], [6]), (''b'', [2], [20, 34])]), laplace_scalar, advance rng0 3)"
    using laplace_apply_noise_scale [OF laplace_inits(1), of 2 mapping_data _ _ rng0 _
        "[(''a'', [1], [10]), (''b'', [2], [20, 30])]"]
    by (simp add: q c IdentityFunction_get_def mapping_data_def wf_items_def advance_def)
  have 4: "LaplaceMechanism_apply laplace_keyed mapping_data rng0 =
     (Inr (PyDict [(''a'', [1], [8]), (''b'', [2], [20, 34])]), laplace_keyed, advance rng0 3)"
    using laplace_apply_noise_scale [OF laplace_inits(3), of _ mapping_data _ _ rng0 _
        "[(''a'', [1], [10]), (''b'', [2], [20, 30])]" "[(''a'', [], [1]), (''b'', [], [2])]"]
    by (simp add: q c IdentityFunction_get_def mapping_data_def wf_items_def scalar_items_def
        sensitivity_of_def advance_def)
  show ?thesis using 1 2 3 4 laplace_inits by simp
qed

text \<open>
  C10. When the query result is neither a scalar nor an ndarray nor a dict, \<open>apply\<close> returns
  None: no error, no noise drawn (the generator is unchanged), the instance unchanged.
\<close>

theorem laplace_apply_other_result:
  assumes "\<not> isinstance_scalar_or_ndarray (lap_query self data)"
    and "\<not> isinstance_dict (lap_query self data)"
  shows "LaplaceMechanism_apply self data g = (Inr PyNone, self, g)"
  using assms by (simp add: LaplaceMechanism_apply_def)

theorem laplace_apply_other_result_witness:
  "LaplaceMechanism_init (PyFloat 1) 1 None = Inr laplace_unit \<and>
   \<not> isinstance_scalar_or_ndarray (lap_query laplace_unit (PyList [0, 1])) \<and>
   \<not> isinstance_dict (lap_query laplace_unit (PyList [0, 1])) \<and>
   LaplaceMechanism_apply laplace_unit (PyList [0, 1]) rng0 = (Inr PyNone, laplace_unit, rng0)"
  using laplace_apply_other_result [of laplace_unit "PyList [0, 1]" rng0]
  by (simp add: laplace_unit_def IdentityFunction_get_def LaplaceMechanism_init_def
      check_epsilon_delta_def)

text \<open>
  C3 fails on the Laplace mechanism: the scalar/array branch of \<open>apply\<close> assigns
  \<^verbatim>\<open>np.asarray(self._sensitivity)\<close> to the field before it validates the shape (the
  Gaussian mechanism keeps the converted value in a local variable). A sensitivity given as
  the float 1.0 is an ndarray after a successful call; a per-key sensitivity is wrapped in
  an object array by a call that then raises, and the instance no longer serves the mapping
  result it served before.
\<close>

theorem laplace_apply_assigns_sensitivity:
  "LaplaceMechanism_init (PyFloat 1) 1 None = Inr laplace_unit \<and>
   lap_sensitivity laplace_unit = PyFloat 1 \<and>
   LaplaceMechanism_apply laplace_unit (PyFloat 0) rng0 =
     (Inr (NdArray [] [- 1]), laplace_unit\<lparr>lap_sensitivity := NdArray [] [1]\<rparr>, advance rng0 1) \<and>
   lap_sensitivity (fst (snd (LaplaceMechanism_apply laplace_unit (PyFloat 0) rng0))) =
     NdArray [] [1] \<and>
   LaplaceMechanism_apply laplace_keyed (PyFloat 0) rng0 =
     (Inl ValueError,
      laplace_keyed\<lparr>lap_sensitivity := NdObject (PyDict [(''a'', [], [1]), (''b'', [], [2])])\<rparr>,
      rng0) \<and>
   fst (LaplaceMechanism_apply
          (laplace_keyed\<lparr>lap_sensitivity := NdObject (PyDict [(''a'', [], [1]), (''b'', [], [2])])\<rparr>)
          mapping_data rng0) = Inl ValueError \<and>
   fst (LaplaceMechanism_apply laplace_keyed mapping_data rng0) =
     Inr (PyDict [(''a'', [1], [8]), (''b'', [2], [20, 34])])"
proof -
  have u: "[0..<2] = [0, 1]" "[1..<3] = [1, 2]"
    by (simp_all add: upt_rec)
  have r: "replicate 2 x = [x, x]" for x :: real
    by (simp add: numeral_2_eq_2)
  show ?thesis
    by (simp add: laplace_unit_def laplace_keyed_def mapping_data_def IdentityFunction_get_def
        LaplaceMechanism_init_def check_epsilon_delta_def LaplaceMechanism_apply_def
        loc_scale_sample_def np_broadcast_to_scalar r u draws_def rng0_def advance_def
        scale_items_def getitem_def)
qed

subsection \<open>GaussianMechanism\<close>

text \<open>
  C2 holds of the epsilon bound and fails on delta: the constructor checks the pair with
  \<open>check_epsilon_delta\<close>, which admits \<open>delta = 0\<close>, adds a guard of its own for
  \<open>epsilon \<ge> 1\<close> and none for delta. The instance it returns for (1/2, 0) cannot be used:
  \<open>apply\<close> divides 1.25 by delta and raises ZeroDivisionError.
\<close>

theorem gaussian_init_accepts_delta_zero:
  "GaussianMechanism_init (PyFloat 1) (1 / 2, 0) None = Inr gaussian_zero_delta \<and>
   GaussianMechanism_apply gaussian_zero_delta (NdArray [1] [0]) rng0 = (Inl ZeroDivisionError, rng0) \<and>
   GaussianMechanism_init (PyFloat 1) (1, 1 / 100) None = Inl ValueError"
  by (simp add: gaussian_init_cases gaussian_zero_delta_def GaussianMechanism_apply_def
      IdentityFunction_get_def gaussian_factor_def)

text \<open>
  C5, as stated, fails: the constructor returns an instance for the pair (1/2, 0), the
  sensitivity fits the query result, and \<open>apply\<close> raises ZeroDivisionError instead of
  returning an array.
\<close>

theorem gaussian_apply_delta_zero_raises:
  "GaussianMechanism_init (PyFloat 1) (1 / 2, 0) None = Inr gaussian_zero_delta \<and>
   check_sensitivity_shape (np_asarray (gau_sensitivity gaussian_zero_delta))
     (np_asarray (gau_query gaussian_zero_delta (NdArray [2] [10, 20]))) = Inr () \<and>
   GaussianMechanism_apply gaussian_zero_delta (NdArray [2] [10, 20]) rng0 =
     (Inl ZeroDivisionError, rng0)"
  by (simp add: gaussian_init_cases gaussian_zero_delta_def GaussianMechanism_apply_def
      IdentityFunction_get_def gaussian_factor_def)

text \<open>
  C5, amended. For an instance that the constructor accepted with \<open>delta > 0\<close>, \<open>apply\<close>
  returns the query result plus normal noise of mean 0, each element with a standard variate
  of its own, of standard deviation \<open>sqrt (2 * ln (1.25 / delta)) * s / epsilon\<close>
  (elementwise when the sensitivity is an array of the result's shape), and the returned
  array has the shape of the query result.
\<close>

theorem gaussian_apply_noise_std:
  assumes init: "GaussianMechanism_init s (e, d) q = Inr self" and d: "0 < d"
  shows
    "(np_asarray s = NdArray [] [sv] \<and> np_asarray (gau_query self data) = NdArray sh xs \<and>
      length xs = prod_list sh \<longrightarrow>
        GaussianMechanism_apply self data g =
          (Inr (NdArray sh (map (\<lambda>i. xs ! i +
              sqrt (2 * ln (1.25 / d)) * sv / e * standard_normal g (consumed g + i))
              [0..<length xs])),
           advance g (length xs))) \<and>
     (np_asarray s = NdArray sh ss \<and> length ss = prod_list sh \<and>
      np_asarray (gau_query self data) = NdArray sh xs \<and> length xs = prod_list sh \<longrightarrow>
        GaussianMechanism_apply self data g =
          (Inr (NdArray sh (map (\<lambda>i. xs ! i +
              sqrt (2 * ln (1.25 / d)) * ss ! i / e * standard_normal g (consumed g + i))
              [0..<length xs])),
           advance g (length xs)))"
proof (intro conjI impI)
  assume "np_asarray s = NdArray [] [sv] \<and> np_asarray (gau_query self data) = NdArray sh xs \<and>
      length xs = prod_list sh"
  then show "GaussianMechanism_apply self data g =
          (Inr (NdArray sh (map (\<lambda>i. xs ! i +
              sqrt (2 * ln (1.25 / d)) * sv / e * standard_normal g (consumed g + i))
              [0..<length xs])),
           advance g (length xs))"
    by (elim conjE) (rule gaussian_apply_scalar_sensitivity [OF init d])
next
  assume "np_asarray s = NdArray sh ss \<and> length ss = prod_list sh \<and>
      np_asarray (gau_query self data) = NdArray sh xs \<and> length xs = prod_list sh"
  then show "GaussianMechanism_apply self data g =
          (Inr (NdArray sh (map (\<lambda>i. xs ! i +
              sqrt (2 * ln (1.25 / d)) * ss ! i / e * standard_normal g (consumed g + i))
              [0..<length xs])),
           advance g (length xs))"
    by (elim conjE) (rule gaussian_apply_array_sensitivity [OF init d])
qed

theorem gaussian_apply_noise_std_witness:
  "GaussianMechanism_init (PyFloat 1) (1 / 2, 5 / 4 * exp (- 2)) None = Inr gaussian_half \<and>
   (0::real) < 5 / 4 * exp (- 2) \<and>
   GaussianMechanism_apply gaussian_half (NdArray [2] [10, 20]) rng0 =
     (Inr (NdArray [2] [14, 22]), advance rng0 2) \<and>
   GaussianMechanism_init (NdArray [2] [1, 2]) (1 / 2, 5 / 4 * exp (- 2)) None = Inr gaussian_array \<and>
   GaussianMechanism_apply gaussian_array (NdArray [2] [10, 20]) rng0 =
     (Inr (NdArray [2] [14, 24]), advance rng0 2)"
proof -
  have q: "gau_query gaussian_half = IdentityFunction_get"
    "gau_query gaussian_array = IdentityFunction_get"
    by (simp_all add: gaussian_half_def gaussian_array_def)
  have c: "consumed rng0 = 0" "standard_normal rng0 = (\<lambda>k. 1 - real k / 2)"
    by (simp_all add: rng0_def)
  have u: "[0..<length [10, 20 :: real]] = [0, 1]"
    by (simp add: upt_rec)
  have 1: "GaussianMechanism_apply gaussian_half (NdArray [2] [10, 20]) rng0 =
     (Inr (NdArray [2] [14, 22]), advance rng0 2)"
    using gaussian_apply_noise_std [OF gaussian_inits(1) gaussian_delta_range(1),
        of 1 "NdArray [2] [10, 20]" "[2]" "[10, 20]" rng0]
    by (simp only: gaussian_std_value u) (simp add: q c IdentityFunction_get_def advance_def)
  have 2: "GaussianMechanism_apply gaussian_array (NdArray [2] [10, 20]) rng0 =
     (Inr (NdArray [2] [14, 24]), advance rng0 2)"
    using gaussian_apply_noise_std [OF gaussian_inits(2) gaussian_delta_range(1),
        of _ "NdArray [2] [10, 20]" "[2]" "[10, 20]" rng0 "[1, 2]"]
    by (simp only: gaussian_std_value u) (simp add: q c IdentityFunction_get_def advance_def)
  show ?thesis using 1 2 gaussian_inits gaussian_delta_range(1) by simp
qed

subsection \<open>ExponentialMechanism\<close>




end
